theory Spec2Isabelle
  imports Main
begin

section \<open>JavaScript values read by the client\<close>

text \<open>
  The fields the client inspects (ids, statuses, timestamps, names, indices, flags) arrive as
  JSON. They are modelled as primitive JavaScript values; numbers are the integral ones
  (message indices, cursors, numeric ids) and strings are ASCII texts.
\<close>

datatype jsval = JUndefined | JNull | JBool bool | JNum int | JStr string

text \<open>Truthiness, as used by \<open>!value\<close>, \<open>a || b\<close>, \<open>a && b\<close> and \<open>Boolean(value)\<close>.\<close>

fun truthy :: "jsval \<Rightarrow> bool" where
  "truthy JUndefined = False"
| "truthy JNull = False"
| "truthy (JBool b) = b"
| "truthy (JNum n) = (n \<noteq> 0)"
| "truthy (JStr s) = (s \<noteq> [])"

text \<open>\<open>value === null || value === undefined\<close>.\<close>

definition nullish :: "jsval \<Rightarrow> bool" where
  "nullish v = (v = JNull \<or> v = JUndefined)"

definition digit_char :: "nat \<Rightarrow> char" where
  "digit_char d = char_of (48 + d)"

function string_of_nat :: "nat \<Rightarrow> string" where
  "string_of_nat n =
     (if n < 10 then [digit_char n] else string_of_nat (n div 10) @ [digit_char (n mod 10)])"
  by pat_completeness auto
termination
  by (relation "measure id") auto

declare string_of_nat.simps [simp del]

definition string_of_int :: "int \<Rightarrow> string" where
  "string_of_int i = (if i < 0 then CHR ''-'' # string_of_nat (nat (- i)) else string_of_nat (nat i))"

text \<open>\<open>String(value)\<close>.\<close>

fun js_String :: "jsval \<Rightarrow> string" where
  "js_String JUndefined = ''undefined''"
| "js_String JNull = ''null''"
| "js_String (JBool b) = (if b then ''true'' else ''false'')"
| "js_String (JNum n) = string_of_int n"
| "js_String (JStr s) = s"

text \<open>\<open>s.toLowerCase()\<close> on ASCII text.\<close>

definition lower_char :: "char \<Rightarrow> char" where
  "lower_char c =
     (case map_of (zip ''ABCDEFGHIJKLMNOPQRSTUVWXYZ'' ''abcdefghijklmnopqrstuvwxyz'') c of
        Some l \<Rightarrow> l
      | None \<Rightarrow> c)"

definition toLowerCase :: "string \<Rightarrow> string" where
  "toLowerCase s = map lower_char s"

text \<open>\<open>s.trim()\<close> on ASCII text: space, tab, line feed, vertical tab, form feed, carriage return.\<close>

definition is_space :: "char \<Rightarrow> bool" where
  "is_space c = (c \<in> set [CHR '' '', CHR 0x09, CHR 0x0A, CHR 0x0B, CHR 0x0C, CHR 0x0D])"

definition trim :: "string \<Rightarrow> string" where
  "trim s = rev (dropWhile is_space (rev (dropWhile is_space s)))"


section \<open>Plan deltas (lib/plan)\<close>

text \<open>
  A step of \<open>plan.steps\<close> and a step of \<open>plan_meta_data.steps\<close>. Every field is read through
  \<open>step?.field\<close>, so an element that is not an object reads as a step whose fields are undefined.
\<close>

record plan_step =
  step_id :: jsval
  status :: jsval
  title :: string

record meta_step =
  meta_id :: jsval
  last_updated :: jsval

text \<open>
  \<open>plan\<close> and \<open>planMetaData\<close> are given by their \<open>steps\<close> array; \<open>None\<close> stands for an object that is
  missing or whose \<open>steps\<close> is not an array (\<open>Array.isArray(plan?.steps) ? plan.steps : []\<close>).
\<close>

definition steps_of :: "'a list option \<Rightarrow> 'a list" where
  "steps_of p = (case p of Some xs \<Rightarrow> xs | None \<Rightarrow> [])"

text \<open>
  \<open>parsePlanMetaTimestamp\<close>. The platform's \<open>Date.parse\<close> is a parameter: it yields the time value
  in milliseconds, or \<open>None\<close> where JavaScript yields \<open>NaN\<close> (the only non-finite result it has).
\<close>

definition parsePlanMetaTimestamp :: "(string \<Rightarrow> int option) \<Rightarrow> jsval \<Rightarrow> int option" where
  "parsePlanMetaTimestamp date_parse v =
     (if \<not> truthy v then None else date_parse (js_String v))"

definition normalizePlanStatus :: "jsval \<Rightarrow> string" where
  "normalizePlanStatus v = (if nullish v then [] else toLowerCase (js_String v))"

definition meta_set :: "(string \<Rightarrow> int option) \<Rightarrow> (string \<rightharpoonup> int) \<Rightarrow> meta_step \<Rightarrow> (string \<rightharpoonup> int)" where
  "meta_set date_parse acc step =
     (let stepId = meta_id step in
      if nullish stepId then acc
      else (case parsePlanMetaTimestamp date_parse (last_updated step) of
              None \<Rightarrow> acc
            | Some updatedAt \<Rightarrow> acc(js_String stepId \<mapsto> updatedAt)))"

definition buildPlanMetaMap :: "(string \<Rightarrow> int option) \<Rightarrow> meta_step list option \<Rightarrow> (string \<rightharpoonup> int)" where
  "buildPlanMetaMap date_parse planMetaData = foldl (meta_set date_parse) Map.empty (steps_of planMetaData)"

definition status_set :: "(string \<rightharpoonup> string) \<Rightarrow> plan_step \<Rightarrow> (string \<rightharpoonup> string)" where
  "status_set acc step =
     (let stepId = step_id step in
      if nullish stepId then acc
      else acc(js_String stepId \<mapsto> normalizePlanStatus (status step)))"

definition buildPlanStatusMap :: "plan_step list option \<Rightarrow> (string \<rightharpoonup> string)" where
  "buildPlanStatusMap plan = foldl status_set Map.empty (steps_of plan)"

record plan_delta =
  updatedSteps :: "plan_step list"
  metaMap :: "string \<rightharpoonup> int"
  statusMap :: "string \<rightharpoonup> string"

text \<open>The callback of \<open>steps.filter\<close> in \<open>getUpdatedPlanSteps\<close>.\<close>

definition step_updated ::
  "(string \<rightharpoonup> int) \<Rightarrow> (string \<rightharpoonup> string) \<Rightarrow> (string \<rightharpoonup> int) \<Rightarrow> (string \<rightharpoonup> string) option
     \<Rightarrow> plan_step \<Rightarrow> bool" where
  "step_updated curMeta curStatus previousMetaMap previousStatusMap step =
     (let stepId = step_id step in
      if nullish stepId then False
      else
        let key = js_String stepId in
        (case curMeta key of
           None \<Rightarrow> False
         | Some current \<Rightarrow>
             (case previousMetaMap key of
                None \<Rightarrow> True
              | Some previous \<Rightarrow>
                  if current \<le> previous then False
                  else
                    let previousStatus = (case previousStatusMap of None \<Rightarrow> None | Some m \<Rightarrow> m key);
                        currentStatus = curStatus key
                    in if previousStatus = Some ''blocked'' \<and> currentStatus = Some ''pending''
                       then False
                       else True)))"

definition getUpdatedPlanSteps ::
  "(string \<Rightarrow> int option) \<Rightarrow> plan_step list option \<Rightarrow> meta_step list option
     \<Rightarrow> (string \<rightharpoonup> int) option \<Rightarrow> (string \<rightharpoonup> string) option \<Rightarrow> plan_delta" where
  "getUpdatedPlanSteps date_parse plan planMetaData previousMetaMap previousStatusMap =
     (let steps = steps_of plan;
          curMeta = buildPlanMetaMap date_parse planMetaData;
          curStatus = buildPlanStatusMap plan
      in case previousMetaMap of
           None \<Rightarrow> \<lparr>updatedSteps = [], metaMap = curMeta, statusMap = curStatus\<rparr>
         | Some prevMeta \<Rightarrow>
             \<lparr>updatedSteps = filter (step_updated curMeta curStatus prevMeta previousStatusMap) steps,
              metaMap = curMeta, statusMap = curStatus\<rparr>)"


section \<open>Messages and their plan decoration (App)\<close>

text \<open>
  A message as the client holds it. \<open>add_content\<close> is given by the three fields the plan code
  reads and writes; a field that is absent reads as \<open>undefined\<close> (\<open>None\<close> for the arrays, which
  also stands for a value that is not an array).
\<close>

record addcontent =
  plan :: "plan_step list option"
  plan_meta_data :: "meta_step list option"
  plan_update_steps :: "plan_step list option"

record message =
  name :: jsval
  content :: jsval
  add_content :: "addcontent option"
  message_index :: jsval
  can_rewind_before :: jsval

text \<open>
  The body of \<open>messages.map\<close> in \<open>decoratedMessages\<close>, with the two variables
  \<open>lastPlanMetaMap\<close> and \<open>lastPlanStatusMap\<close> threaded through the list.
  \<open>message?.add_content || {}\<close> is the record with no field set.
\<close>

definition no_addcontent :: addcontent where
  "no_addcontent = \<lparr>plan = None, plan_meta_data = None, plan_update_steps = None\<rparr>"

fun decorate ::
  "(string \<Rightarrow> int option) \<Rightarrow> (string \<rightharpoonup> int) option \<Rightarrow> (string \<rightharpoonup> string) option
     \<Rightarrow> message list \<Rightarrow> message list" where
  "decorate date_parse lastPlanMetaMap lastPlanStatusMap [] = []"
| "decorate date_parse lastPlanMetaMap lastPlanStatusMap (m # ms) =
     (let addContent = (case add_content m of Some a \<Rightarrow> a | None \<Rightarrow> no_addcontent);
          hasPlan = (plan addContent \<noteq> None);
          hasMetaData = (plan_meta_data addContent \<noteq> None)
      in if \<not> hasPlan \<or> \<not> hasMetaData
         then m # decorate date_parse lastPlanMetaMap lastPlanStatusMap ms
         else
           let r = getUpdatedPlanSteps date_parse (plan addContent) (plan_meta_data addContent)
                     lastPlanMetaMap lastPlanStatusMap
           in m\<lparr>add_content := Some (addContent\<lparr>plan_update_steps := Some (updatedSteps r)\<rparr>)\<rparr>
                # decorate date_parse (Some (metaMap r)) (Some (statusMap r)) ms)"

definition decoratedMessages :: "(string \<Rightarrow> int option) \<Rightarrow> message list \<Rightarrow> message list" where
  "decoratedMessages date_parse msgs = decorate date_parse None None msgs"


section \<open>Client state (App)\<close>

record active_run =
  run_threadId :: "string option"
  run_name :: "string option"

text \<open>
  The state of \<open>App\<close> that the event, history, run and rewind handlers read and write: the
  \<open>useState\<close> values, the refs, the open per-thread \<open>EventSource\<close> (its thread and \<open>from_idx\<close>)
  and the cursors kept in \<open>localStorage\<close>. \<open>loadingByThreadId\<close> is the set of keys of the object
  (every stored value is \<open>true\<close>). \<open>rewindText\<close> is \<open>rewindTextRef.current.value\<close>, \<open>None\<close> while
  the textarea is not mounted.
\<close>

record app =
  messages :: "message list"
  selectedThreadId :: "string option"
  rewindEditIndex :: "int option"
  rewindError :: string
  isRewinding :: bool
  rewindStatusByThread :: "string \<rightharpoonup> string"
  rewindText :: "string option"
  loadingByThreadId :: "string set"
  pendingRunId :: "string option"
  activeRun :: active_run
  error :: string
  isHistoryLoading :: bool
  eventSource :: "(string \<times> int) option"
  eventCursorRef :: int
  skipHistoryRef :: bool
  shouldRecalcAutoScrollRef :: bool
  streamErrorRef :: bool
  storedCursor :: "string \<rightharpoonup> int"

text \<open>Truthiness of a string that may be \<open>null\<close>.\<close>

definition truthy_str :: "string option \<Rightarrow> bool" where
  "truthy_str v = (case v of Some t \<Rightarrow> t \<noteq> [] | None \<Rightarrow> False)"

subsection \<open>Values derived on every render\<close>

definition currentThreadKey :: "app \<Rightarrow> string" where
  "currentThreadKey s = (case selectedThreadId s of Some t \<Rightarrow> t | None \<Rightarrow> ''-1'')"

definition activeThreadId :: "app \<Rightarrow> string option" where
  "activeThreadId s = run_threadId (activeRun s)"

definition isActiveHere :: "app \<Rightarrow> bool" where
  "isActiveHere s = (truthy_str (activeThreadId s) \<and> activeThreadId s = Some (currentThreadKey s))"

definition isAnyRunActive :: "app \<Rightarrow> bool" where
  "isAnyRunActive s = truthy_str (activeThreadId s)"

definition isLoading :: "app \<Rightarrow> bool" where
  "isLoading s = (currentThreadKey s \<in> loadingByThreadId s \<or> isActiveHere s)"

definition canInterrupt :: "app \<Rightarrow> bool" where
  "canInterrupt s = (isLoading s \<and> currentThreadKey s \<noteq> ''-1'')"

definition blockNewMessages :: "app \<Rightarrow> bool" where
  "blockNewMessages s = (truthy_str (activeThreadId s) \<and> activeThreadId s \<noteq> Some (currentThreadKey s))"

definition rewindDisabled :: "app \<Rightarrow> bool" where
  "rewindDisabled s = (isLoading s \<or> blockNewMessages s)"

definition currentRewindStatus :: "app \<Rightarrow> string option" where
  "currentRewindStatus s =
     (case selectedThreadId s of
        None \<Rightarrow> None
      | Some t \<Rightarrow>
          if t \<noteq> [] \<and> t \<noteq> ''-1''
          then (case rewindStatusByThread s t of
                  Some st \<Rightarrow> Some (if st \<noteq> [] then st else ''pending'')
                | None \<Rightarrow> Some ''pending'')
          else None)"

subsection \<open>Small state helpers\<close>

definition loadStoredCursor :: "app \<Rightarrow> string \<Rightarrow> int" where
  "loadStoredCursor s threadId =
     (if threadId = [] then 0 else (case storedCursor s threadId of Some c \<Rightarrow> c | None \<Rightarrow> 0))"

definition storeCursor :: "string \<Rightarrow> int \<Rightarrow> app \<Rightarrow> app" where
  "storeCursor threadId cursor s =
     (if threadId = [] then s else s\<lparr>storedCursor := (storedCursor s)(threadId \<mapsto> cursor)\<rparr>)"

definition setThreadLoading :: "string \<Rightarrow> bool \<Rightarrow> app \<Rightarrow> app" where
  "setThreadLoading threadId v s =
     (if threadId = [] then s
      else if v then s\<lparr>loadingByThreadId := insert threadId (loadingByThreadId s)\<rparr>
      else s\<lparr>loadingByThreadId := loadingByThreadId s - {threadId}\<rparr>)"

definition moveThreadLoading :: "string \<Rightarrow> string \<Rightarrow> app \<Rightarrow> app" where
  "moveThreadLoading fromThreadId toThreadId s =
     (if fromThreadId = [] \<or> toThreadId = [] \<or> fromThreadId = toThreadId then s
      else if fromThreadId \<notin> loadingByThreadId s then s
      else s\<lparr>loadingByThreadId := insert toThreadId (loadingByThreadId s - {fromThreadId})\<rparr>)"

definition closeEventSource :: "app \<Rightarrow> app" where
  "closeEventSource s = s\<lparr>eventSource := None\<rparr>"

text \<open>
  \<open>connectEventSource\<close>: the stream is opened on \<open>/events\<close> with \<open>thread_id\<close> and
  \<open>from_idx = Math.max(0, fromCursor)\<close>.
\<close>

definition connectEventSource :: "string \<Rightarrow> int \<Rightarrow> app \<Rightarrow> app" where
  "connectEventSource threadId fromCursor s =
     (if threadId = [] \<or> threadId = ''-1'' then s
      else (closeEventSource s)\<lparr>eventSource := Some (threadId, max 0 fromCursor)\<rparr>)"

text \<open>
  A response that is not ok, as \<open>reportResponseError\<close> reads it: the string found under \<open>detail\<close>
  (else under \<open>error\<close>), if the body is JSON and has one, and the HTTP status.
\<close>

record error_response =
  err_detail :: "string option"
  err_status :: nat

definition reportResponseError :: "error_response \<Rightarrow> string \<Rightarrow> app \<Rightarrow> app" where
  "reportResponseError res fallbackMessage s =
     (let detail = (case err_detail res of Some d \<Rightarrow> d | None \<Rightarrow> [])
      in s\<lparr>error := (if detail \<noteq> [] then fallbackMessage @ '': '' @ detail
                       else fallbackMessage @ '' ('' @ string_of_nat (err_status res) @ '')'')\<rparr>)"


subsection \<open>Requests left pending by a handler\<close>

text \<open>
  The handlers are \<open>async\<close>: each runs up to its \<open>fetch\<close>, and continues when the response
  arrives. A handler is modelled by the part before the request, which returns the new state and
  the requests it has issued, and the part after it, which takes the response and the state of
  that moment.
\<close>

datatype request =
    GetRuns
  | GetHistory string
  | PostChat string string
  | PostRewind string int string

subsection \<open>Per-thread events (\<open>handleEventData\<close>)\<close>

text \<open>
  The parsed event, by its \<open>event\<close> field, with the payload the handler reads: \<open>messages\<close>
  (\<open>None\<close> when null or absent), \<open>status\<close>, \<open>rewindable_indices\<close> (\<open>None\<close> when falsy) and \<open>error\<close>
  (\<open>None\<close> when absent).
\<close>

datatype event_data =
    MessageUpdate "message list option"
  | HistoryReset "message list option"
  | RewindStatus jsval
  | RewindUpdate "jsval list option"
  | ErrorEvent "string option"
  | Interrupted
  | Done
  | OtherEvent

text \<open>The object built for each message of a \<open>message_update\<close> or \<open>history_reset\<close> event.\<close>

definition event_message :: "message \<Rightarrow> message" where
  "event_message m =
     \<lparr>name = (if truthy (name m) then name m else JStr ''assistant''),
      content = content m,
      add_content = add_content m,
      message_index = message_index m,
      can_rewind_before = can_rewind_before m\<rparr>"

definition event_messages :: "message list option \<Rightarrow> message list" where
  "event_messages msgs = map event_message (case msgs of Some xs \<Rightarrow> xs | None \<Rightarrow> [])"

text \<open>\<open>typeof v === "number"\<close>.\<close>

definition is_number :: "jsval \<Rightarrow> bool" where
  "is_number v = (case v of JNum n \<Rightarrow> True | _ \<Rightarrow> False)"

text \<open>The body of \<open>prev.map\<close> on a \<open>rewind_update\<close> event; \<open>indices\<close> is the \<open>Set\<close>.\<close>

definition rewind_mark :: "jsval set \<Rightarrow> message \<Rightarrow> message" where
  "rewind_mark indices m =
     (if name m = JStr ''user'' \<and> is_number (message_index m)
      then m\<lparr>can_rewind_before := JBool (message_index m \<in> indices)\<rparr>
      else m)"

definition release_run :: "string \<Rightarrow> active_run \<Rightarrow> active_run" where
  "release_run threadId prev =
     (if run_threadId prev = Some threadId then \<lparr>run_threadId = None, run_name = None\<rparr> else prev)"

text \<open>
  \<open>reloadHistory\<close> up to its \<open>fetch\<close>.
\<close>

definition reloadHistory_start :: "string \<Rightarrow> app \<Rightarrow> app \<times> request list" where
  "reloadHistory_start threadId s =
     (if threadId = [] \<or> threadId = ''-1'' then (s, [])
      else ((closeEventSource s)\<lparr>isHistoryLoading := True, skipHistoryRef := False\<rparr>,
            [GetHistory threadId]))"

text \<open>
  \<open>handleEventData\<close>. \<open>eventData\<close> is \<open>None\<close> for a falsy parsed value. On \<open>done\<close> the handler also
  starts \<open>fetchRuns\<close> and, for the selected thread, \<open>reloadHistory\<close> (the selected thread is the one
  of the state the handler runs in).
\<close>

definition handleEventData :: "event_data option \<Rightarrow> string \<Rightarrow> app \<Rightarrow> app \<times> request list" where
  "handleEventData eventData threadId s =
     (case eventData of
        None \<Rightarrow> (s, [])
      | Some ev \<Rightarrow>
          if threadId = [] then (s, [])
          else
            (case ev of
               MessageUpdate msgs \<Rightarrow>
                 (s\<lparr>messages := messages s @ event_messages msgs\<rparr>, [])
             | HistoryReset msgs \<Rightarrow>
                 (s\<lparr>messages := event_messages msgs, shouldRecalcAutoScrollRef := True\<rparr>, [])
             | RewindStatus v \<Rightarrow>
                 (let st = (case v of JStr t \<Rightarrow> t | _ \<Rightarrow> ''pending'')
                  in (s\<lparr>rewindStatusByThread := (rewindStatusByThread s)(threadId \<mapsto> st)\<rparr>, []))
             | RewindUpdate idx \<Rightarrow>
                 (let indices = set (case idx of Some xs \<Rightarrow> xs | None \<Rightarrow> [])
                  in (s\<lparr>messages := map (rewind_mark indices) (messages s),
                        rewindStatusByThread := (rewindStatusByThread s)(threadId \<mapsto> ''ready'')\<rparr>, []))
             | ErrorEvent e \<Rightarrow>
                 (setThreadLoading threadId False
                    (s\<lparr>streamErrorRef := True,
                       error := (case e of Some t \<Rightarrow> if t \<noteq> [] then t else ''Unknown error from server''
                                 | None \<Rightarrow> ''Unknown error from server'')\<rparr>), [])
             | Interrupted \<Rightarrow>
                 (let s1 = setThreadLoading threadId False s
                  in (s1\<lparr>activeRun := release_run threadId (activeRun s1)\<rparr>, []))
             | Done \<Rightarrow>
                 (let s1 = setThreadLoading threadId False s;
                      s2 = s1\<lparr>activeRun := release_run threadId (activeRun s1)\<rparr>;
                      (s3, reqs) = (if Some threadId = selectedThreadId s2
                                    then reloadHistory_start threadId s2 else (s2, []));
                      s4 = (if \<not> streamErrorRef s3 then s3\<lparr>error := []\<rparr> else s3)
                  in (s4\<lparr>streamErrorRef := False\<rparr>, GetRuns # reqs))
             | OtherEvent \<Rightarrow> (s, [])))"

subsection \<open>History snapshots (\<open>reloadHistory\<close>)\<close>

text \<open>
  The body of a successful \<open>/history\<close> response: \<open>messages\<close> (\<open>None\<close> when null or absent),
  \<open>rewind_status\<close>, and \<open>Number(data.event_cursor)\<close> when that is finite (\<open>None\<close> otherwise).
\<close>

record history_data =
  hist_messages :: "message list option"
  hist_rewind_status :: "string option"
  hist_event_cursor :: "int option"

datatype history_response =
    HistoryOk history_data
  | HistoryNotOk error_response
  | HistoryThrew string

text \<open>\<open>reloadHistory\<close> from the response on, the \<open>finally\<close> block included.\<close>

definition reloadHistory_finish :: "string \<Rightarrow> history_response \<Rightarrow> app \<Rightarrow> app" where
  "reloadHistory_finish threadId res s =
     (let s' =
        (case res of
           HistoryNotOk e \<Rightarrow> reportResponseError e ''Failed to load history'' s
         | HistoryThrew msg \<Rightarrow> s\<lparr>error := msg\<rparr>
         | HistoryOk data \<Rightarrow>
             (let s1 = s\<lparr>messages := (case hist_messages data of Some xs \<Rightarrow> xs | None \<Rightarrow> []),
                         rewindStatusByThread := (rewindStatusByThread s)
                           (threadId \<mapsto> (case hist_rewind_status data of
                                           Some t \<Rightarrow> if t \<noteq> [] then t else ''pending''
                                         | None \<Rightarrow> ''pending'')),
                         shouldRecalcAutoScrollRef := True\<rparr>;
                  stored = loadStoredCursor s1 threadId;
                  nextCursor = (case hist_event_cursor data of Some c \<Rightarrow> c | None \<Rightarrow> stored);
                  s2 = storeCursor threadId nextCursor (s1\<lparr>eventCursorRef := nextCursor\<rparr>)
              in connectEventSource threadId nextCursor s2))
      in s'\<lparr>isHistoryLoading := False\<rparr>)"

text \<open>
  The whole of \<open>reloadHistory\<close> when nothing else runs between the request and its response:
  \<open>None\<close> when the guard returns before any request is made.
\<close>

definition reloadHistory :: "string \<Rightarrow> history_response \<Rightarrow> app \<Rightarrow> app option" where
  "reloadHistory threadId res s =
     (case reloadHistory_start threadId s of
        (s1, []) \<Rightarrow> None
      | (s1, r # rs) \<Rightarrow> Some (reloadHistory_finish threadId res s1))"


subsection \<open>Admission conflicts (HTTP 409)\<close>

text \<open>
  The body of a 409 response. \<open>detail = data?.detail ?? data ?? {}\<close>: the two fields are read from
  \<open>data.detail\<close> when the body has one (\<open>Wrapped\<close>), else from the body itself (\<open>Plain\<close>); the body is
  \<open>None\<close> when it is not JSON. A field is \<open>None\<close> when null or absent.
\<close>

record busy =
  active_thread_id :: "string option"
  active_run_name :: "string option"

datatype conflict_body = Wrapped busy | Plain busy

definition conflict_detail :: "conflict_body option \<Rightarrow> busy" where
  "conflict_detail body =
     (case body of
        Some (Wrapped d) \<Rightarrow> d
      | Some (Plain d) \<Rightarrow> d
      | None \<Rightarrow> \<lparr>active_thread_id = None, active_run_name = None\<rparr>)"

text \<open>\<open>(activeName && String(activeName).trim()) || activeThreadId || "another run"\<close>.\<close>

definition busyLabel :: "busy \<Rightarrow> string" where
  "busyLabel d =
     (let byName = (case active_run_name d of Some n \<Rightarrow> if n \<noteq> [] then trim n else [] | None \<Rightarrow> [])
      in if byName \<noteq> [] then byName
         else if truthy_str (active_thread_id d) then (case active_thread_id d of Some t \<Rightarrow> t | None \<Rightarrow> [])
         else ''another run'')"

definition busy_message :: "busy \<Rightarrow> string" where
  "busy_message d = ''Run '' @ busyLabel d @ '' is already running.''"

definition note_active_run :: "busy \<Rightarrow> app \<Rightarrow> app" where
  "note_active_run d s =
     (if truthy_str (active_thread_id d)
      then s\<lparr>activeRun := \<lparr>run_threadId = active_thread_id d, run_name = active_run_name d\<rparr>\<rparr>
      else s)"

subsection \<open>Run requests (\<open>sendMessage\<close>)\<close>

datatype chat_response =
    ChatConflict "conflict_body option"
  | ChatNotOk nat
  | ChatOk "string option"
  | ChatThrew string

text \<open>\<open>sendMessage\<close> up to its \<open>fetch\<close>: the guards, and the user's message appended at once.\<close>

definition sendMessage_start :: "string \<Rightarrow> app \<Rightarrow> app \<times> request list" where
  "sendMessage_start prompt s =
     (if isLoading s then (s, [])
      else if blockNewMessages s then (s, [])
      else if trim prompt = [] then (s, [])
      else
        let s1 = s\<lparr>rewindEditIndex := None, rewindError := [],
                   rewindText := (case rewindText s of Some t \<Rightarrow> Some [] | None \<Rightarrow> None)\<rparr>;
            threadId = currentThreadKey s;
            userMessage = \<lparr>name = JStr ''user'', content = JStr prompt, add_content = None,
                           message_index = JUndefined, can_rewind_before = JUndefined\<rparr>;
            s2 = s1\<lparr>messages := messages s1 @ [userMessage], streamErrorRef := False, error := []\<rparr>
        in (setThreadLoading threadId True s2, [PostChat threadId prompt]))"

text \<open>
  \<open>sendMessage\<close> from the response on; \<open>threadId\<close> is the thread the request was made for.
  \<open>ChatOk t\<close> carries \<open>data?.thread_id\<close>.
\<close>

definition sendMessage_finish :: "string \<Rightarrow> chat_response \<Rightarrow> app \<Rightarrow> app \<times> request list" where
  "sendMessage_finish threadId res s =
     (case res of
        ChatConflict body \<Rightarrow>
          (let detail = conflict_detail body;
               s1 = note_active_run detail s;
               s2 = s1\<lparr>error := busy_message detail\<rparr>
           in (setThreadLoading threadId False s2, []))
      | ChatNotOk code \<Rightarrow>
          (setThreadLoading threadId False
             (s\<lparr>error := ''Request failed with status '' @ string_of_nat code\<rparr>), [])
      | ChatThrew msg \<Rightarrow> (setThreadLoading threadId False (s\<lparr>error := msg\<rparr>), [])
      | ChatOk t \<Rightarrow>
          (let nextThreadId = (if truthy_str t then (case t of Some x \<Rightarrow> x | None \<Rightarrow> threadId) else threadId);
               isNewRun = (threadId = ''-1'')
           in if isNewRun
              then
                (let s1 = storeCursor nextThreadId 0 (s\<lparr>skipHistoryRef := True, eventCursorRef := 0\<rparr>);
                     s2 = s1\<lparr>selectedThreadId := Some nextThreadId, pendingRunId := Some nextThreadId\<rparr>
                 in (moveThreadLoading threadId nextThreadId s2, [GetRuns]))
              else (s, [])))"

text \<open>The whole of \<open>sendMessage\<close> when nothing else runs between the request and its response.\<close>

definition sendMessage :: "string \<Rightarrow> chat_response \<Rightarrow> app \<Rightarrow> app \<times> request list" where
  "sendMessage prompt res s =
     (case sendMessage_start prompt s of
        (s1, []) \<Rightarrow> (s1, [])
      | (s1, r # rs) \<Rightarrow>
          (let (s2, later) = sendMessage_finish (currentThreadKey s) res s1 in (s2, r # rs @ later)))"

subsection \<open>Rewind requests (\<open>startRewindEdit\<close>, \<open>confirmRewindEdit\<close>)\<close>

definition startRewindEdit :: "message option \<Rightarrow> app \<Rightarrow> app" where
  "startRewindEdit msg s =
     (case msg of
        None \<Rightarrow> s
      | Some m \<Rightarrow>
          (case message_index m of
             JNum i \<Rightarrow>
               s\<lparr>rewindEditIndex := Some i, rewindError := [],
                 rewindText := (case rewindText s of
                                  Some t \<Rightarrow> Some (case content m of JStr c \<Rightarrow> c | _ \<Rightarrow> [])
                                | None \<Rightarrow> None)\<rparr>
           | _ \<Rightarrow> s))"

datatype rewind_response =
    RewindConflict "conflict_body option"
  | RewindNotOk error_response
  | RewindOk
  | RewindThrew string

text \<open>\<open>confirmRewindEdit\<close> up to its \<open>fetch\<close>.\<close>

definition confirmRewindEdit_start :: "message option \<Rightarrow> app \<Rightarrow> app \<times> request list" where
  "confirmRewindEdit_start msg s =
     (case msg of
        None \<Rightarrow> (s, [])
      | Some m \<Rightarrow>
          (case message_index m of
             JNum i \<Rightarrow>
               if rewindDisabled s \<or> isRewinding s then (s, [])
               else
                 (case selectedThreadId s of
                    None \<Rightarrow> (s\<lparr>rewindError := ''Select a run before rewinding.''\<rparr>, [])
                  | Some threadId \<Rightarrow>
                      if threadId = [] \<or> threadId = ''-1''
                      then (s\<lparr>rewindError := ''Select a run before rewinding.''\<rparr>, [])
                      else
                        let draft = (case rewindText s of Some t \<Rightarrow> t | None \<Rightarrow> []);
                            trimmed = trim draft
                        in if trimmed = [] then (s\<lparr>rewindError := ''Message cannot be empty.''\<rparr>, [])
                           else (s\<lparr>isRewinding := True, rewindError := [], error := [],
                                    streamErrorRef := False\<rparr>,
                                 [PostRewind threadId i trimmed]))
           | _ \<Rightarrow> (s, [])))"

text \<open>
  \<open>confirmRewindEdit\<close> from the response on; \<open>threadId\<close> is the thread the request was made for.
  After a success the handler awaits \<open>reloadHistory\<close>, and \<open>isRewinding\<close> is reset by the \<open>finally\<close>
  block only then (\<open>confirmRewindEdit_settle\<close>); on every other path the \<open>finally\<close> block runs at once.
\<close>

definition confirmRewindEdit_settle :: "app \<Rightarrow> app" where
  "confirmRewindEdit_settle s = s\<lparr>isRewinding := False\<rparr>"

definition confirmRewindEdit_finish :: "string \<Rightarrow> rewind_response \<Rightarrow> app \<Rightarrow> app \<times> request list" where
  "confirmRewindEdit_finish threadId res s =
     (case res of
        RewindConflict body \<Rightarrow>
          (let detail = conflict_detail body;
               s1 = note_active_run detail s;
               s2 = s1\<lparr>rewindError := busy_message detail\<rparr>
           in (confirmRewindEdit_settle s2, []))
      | RewindNotOk e \<Rightarrow> (confirmRewindEdit_settle (reportResponseError e ''Failed to rewind'' s), [])
      | RewindThrew msg \<Rightarrow> (confirmRewindEdit_settle (s\<lparr>rewindError := msg\<rparr>), [])
      | RewindOk \<Rightarrow>
          (let s1 = s\<lparr>rewindEditIndex := None, rewindError := [],
                      rewindText := (case rewindText s of Some t \<Rightarrow> Some [] | None \<Rightarrow> None)\<rparr>;
               s2 = setThreadLoading threadId True s1
           in reloadHistory_start threadId s2))"

text \<open>The whole of \<open>confirmRewindEdit\<close> up to the response of \<open>/rewind\<close>, nothing else running between.\<close>

definition confirmRewindEdit :: "message option \<Rightarrow> rewind_response \<Rightarrow> app \<Rightarrow> app \<times> request list" where
  "confirmRewindEdit msg res s =
     (case confirmRewindEdit_start msg s of
        (s1, []) \<Rightarrow> (s1, [])
      | (s1, r # rs) \<Rightarrow>
          (let (s2, later) = confirmRewindEdit_finish (currentThreadKey s) res s1 in (s2, r # rs @ later)))"

subsection \<open>The rewind controls of a message (MessageList, MarkdownBubble)\<close>

text \<open>
  What \<open>MessageList\<close> renders for a plain message \<open>m\<close>: the Rewind button of its bubble
  (\<open>showRewind = canRewind\<close>, in the branch taken when the message is not being edited, is not the
  orchestrator's and has content) and the edit form with its confirm button. \<open>hasContent\<close> depends
  on \<open>stripControlChars\<close>, whose pattern is a constant outside these sources: it is a parameter.
  The props are \<open>rewindEditIndex\<close>, \<open>isRewinding\<close> and \<open>rewindDisabled\<close>; the \<open>rewindStatus\<close> prop that
  \<open>App\<close> passes is not among the props \<open>MessageList\<close> takes.
\<close>

definition isUser :: "message \<Rightarrow> bool" where
  "isUser m = (name m = JStr ''user'')"

definition canRewind :: "message \<Rightarrow> bool" where
  "canRewind m = (isUser m \<and> truthy (can_rewind_before m))"

definition isEditingRewind :: "int option \<Rightarrow> message \<Rightarrow> bool" where
  "isEditingRewind editIndex m =
     (isUser m \<and> (case message_index m of JNum i \<Rightarrow> editIndex = Some i | _ \<Rightarrow> False))"

definition showRewindButton :: "(jsval \<Rightarrow> bool) \<Rightarrow> int option \<Rightarrow> message \<Rightarrow> bool" where
  "showRewindButton hasContent editIndex m =
     (\<not> isEditingRewind editIndex m \<and> name m \<noteq> JStr ''orchestrator'' \<and> hasContent (content m)
      \<and> canRewind m)"

text \<open>The Rewind button can be pressed: it is rendered and not \<open>disabled\<close>.\<close>

definition rewind_button_enabled :: "(jsval \<Rightarrow> bool) \<Rightarrow> app \<Rightarrow> message \<Rightarrow> bool" where
  "rewind_button_enabled hasContent s m =
     (showRewindButton hasContent (rewindEditIndex s) m \<and> \<not> rewindDisabled s)"

text \<open>The confirm button (\<open>Rewind & run\<close>) can be pressed: the form is rendered and the button not \<open>disabled\<close>.\<close>

definition confirm_button_enabled :: "app \<Rightarrow> message \<Rightarrow> bool" where
  "confirm_button_enabled s m =
     (isEditingRewind (rewindEditIndex s) m \<and> \<not> (isRewinding s \<or> rewindDisabled s))"


section \<open>The delta as the specification words it\<close>

text \<open>
  The key under which a step is tracked, and the notions the specification uses for a step
  between the previous plan-bearing snapshot and the current one: its timestamp increased, it
  has a timestamp now and had none before, and the status recorded under its key went from one
  given status to another.
\<close>

definition step_key :: "plan_step \<Rightarrow> string" where
  "step_key st = js_String (step_id st)"

definition timestamp_increased :: "(string \<rightharpoonup> int) \<Rightarrow> (string \<rightharpoonup> int) \<Rightarrow> string \<Rightarrow> bool" where
  "timestamp_increased prevMeta curMeta key =
     (case prevMeta key of
        None \<Rightarrow> False
      | Some p \<Rightarrow> (case curMeta key of None \<Rightarrow> False | Some c \<Rightarrow> p < c))"

definition first_timestamp :: "(string \<rightharpoonup> int) \<Rightarrow> (string \<rightharpoonup> int) \<Rightarrow> string \<Rightarrow> bool" where
  "first_timestamp prevMeta curMeta key = (prevMeta key = None \<and> curMeta key \<noteq> None)"

definition status_of :: "(string \<rightharpoonup> string) option \<Rightarrow> string \<Rightarrow> string option" where
  "status_of m key = (case m of None \<Rightarrow> None | Some f \<Rightarrow> f key)"

definition status_transition ::
  "string \<Rightarrow> string \<Rightarrow> (string \<rightharpoonup> string) option \<Rightarrow> (string \<rightharpoonup> string) \<Rightarrow> string \<Rightarrow> bool" where
  "status_transition a b prevStatus curStatus key =
     (status_of prevStatus key = Some a \<and> curStatus key = Some b)"

text \<open>
  The delta in the specification's words: the steps whose timestamp increased, those that went
  from \<open>blocked\<close> to \<open>pending\<close> left out.
\<close>

definition claimed_delta ::
  "(string \<Rightarrow> int option) \<Rightarrow> plan_step list option \<Rightarrow> meta_step list option
     \<Rightarrow> (string \<rightharpoonup> int) \<Rightarrow> (string \<rightharpoonup> string) option \<Rightarrow> plan_step list" where
  "claimed_delta date_parse pl md prevMeta prevStatus =
     filter (\<lambda>st. \<not> nullish (step_id st)
                \<and> timestamp_increased prevMeta (buildPlanMetaMap date_parse md) (step_key st)
                \<and> \<not> status_transition ''blocked'' ''pending'' prevStatus (buildPlanStatusMap pl) (step_key st))
       (steps_of pl)"


section \<open>Sample inputs\<close>

text \<open>
  \<open>Date.parse\<close> on the two ISO 8601 instants the samples use (midnight UTC of 1 and 2 January
  2024, in milliseconds since the epoch); no sample passes it any other text that parses.
\<close>

definition sample_date_parse :: "string \<Rightarrow> int option" where
  "sample_date_parse t =
     (if t = ''2024-01-01T00:00:00Z'' then Some 1704067200000
      else if t = ''2024-01-02T00:00:00Z'' then Some 1704153600000
      else None)"

definition ex_step :: "string \<Rightarrow> string \<Rightarrow> plan_step" where
  "ex_step i st = \<lparr>step_id = JStr i, status = JStr st, title = ''Generate events''\<rparr>"

definition ex_meta :: "string \<Rightarrow> string \<Rightarrow> meta_step" where
  "ex_meta i ts = \<lparr>meta_id = JStr i, last_updated = JStr ts\<rparr>"

text \<open>A plan-bearing message, and the delta that \<open>decoratedMessages\<close> attaches to a message.\<close>

definition plan_message :: "plan_step list \<Rightarrow> meta_step list \<Rightarrow> message" where
  "plan_message sts mds =
     \<lparr>name = JStr ''plan_updater'', content = JStr ''Plan updated'',
      add_content = Some \<lparr>plan = Some sts, plan_meta_data = Some mds, plan_update_steps = None\<rparr>,
      message_index = JUndefined, can_rewind_before = JUndefined\<rparr>"

definition update_steps_of :: "message \<Rightarrow> plan_step list option" where
  "update_steps_of m = (case add_content m of Some a \<Rightarrow> plan_update_steps a | None \<Rightarrow> None)"

text \<open>The state \<open>App\<close> starts in (no thread selected), and a thread with three messages.\<close>

definition initial_app :: app where
  "initial_app =
     \<lparr>messages = [], selectedThreadId = None, rewindEditIndex = None, rewindError = [],
      isRewinding = False, rewindStatusByThread = Map.empty, rewindText = None,
      loadingByThreadId = {}, pendingRunId = None,
      activeRun = \<lparr>run_threadId = None, run_name = None\<rparr>, error = [],
      isHistoryLoading = False, eventSource = None, eventCursorRef = 0, skipHistoryRef = False,
      shouldRecalcAutoScrollRef = False, streamErrorRef = False, storedCursor = Map.empty\<rparr>"

definition ex_message :: "string \<Rightarrow> string \<Rightarrow> int \<Rightarrow> bool \<Rightarrow> message" where
  "ex_message who txt i rw =
     \<lparr>name = JStr who, content = JStr txt, add_content = None, message_index = JNum i,
      can_rewind_before = JBool rw\<rparr>"

definition ex_thread :: app where
  "ex_thread = initial_app\<lparr>selectedThreadId := Some ''t1'',
      messages := [ex_message ''user'' ''first'' 0 True, ex_message ''planner'' ''plan'' 1 False,
                   ex_message ''user'' ''second'' 2 False]\<rparr>"

text \<open>The same thread while its run is active and loading.\<close>

definition ex_running :: app where
  "ex_running = ex_thread\<lparr>activeRun := \<lparr>run_threadId = Some ''t1'', run_name = Some ''Drell-Yan''\<rparr>,
                            loadingByThreadId := {''t1''}\<rparr>"

text \<open>
  The same thread, idle, after the event \<open>rewind_status = pending\<close> has arrived on its stream;
  then with the edit form of its first message open and a draft typed into it.
\<close>

definition ex_pending :: app where
  "ex_pending = fst (handleEventData (Some (RewindStatus (JStr ''pending''))) ''t1'' ex_thread)"

definition ex_pending_editing :: app where
  "ex_pending_editing =
     (startRewindEdit (Some (ex_message ''user'' ''first'' 0 True)) ex_pending)
       \<lparr>rewindText := Some ''first, edited''\<rparr>"

text \<open>
  The same thread, idle, with the edit form of its first message open and a draft typed into it;
  then after a \<open>rewind_update\<close> event whose set holds index 2 only has arrived on its stream.
\<close>

definition ex_editing :: app where
  "ex_editing =
     (startRewindEdit (Some (ex_message ''user'' ''first'' 0 True)) ex_thread)
       \<lparr>rewindText := Some ''first, edited''\<rparr>"

definition ex_revoked :: app where
  "ex_revoked = fst (handleEventData (Some (RewindUpdate (Some [JNum 2]))) ''t1'' ex_editing)"

text \<open>A 409 body naming the run of thread \<open>t2\<close>.\<close>

definition ex_busy :: "conflict_body option" where
  "ex_busy = Some (Wrapped \<lparr>active_thread_id = Some ''t2'', active_run_name = Some '' ttbar scan ''\<rparr>)"

definition user_message :: "string \<Rightarrow> message" where
  "user_message prompt =
     \<lparr>name = JStr ''user'', content = JStr prompt, add_content = None,
      message_index = JUndefined, can_rewind_before = JUndefined\<rparr>"


section \<open>Evaluation of the samples\<close>

lemmas plan_eval = getUpdatedPlanSteps_def buildPlanMetaMap_def buildPlanStatusMap_def meta_set_def
  status_set_def step_updated_def parsePlanMetaTimestamp_def normalizePlanStatus_def toLowerCase_def
  lower_char_def steps_of_def nullish_def sample_date_parse_def ex_step_def ex_meta_def Let_def
  claimed_delta_def timestamp_increased_def first_timestamp_def status_transition_def status_of_def
  step_key_def

lemmas app_eval = initial_app_def ex_message_def ex_thread_def ex_running_def ex_pending_def
  ex_pending_editing_def ex_editing_def ex_revoked_def ex_busy_def user_message_def
  reloadHistory_def reloadHistory_start_def
  reloadHistory_finish_def connectEventSource_def closeEventSource_def storeCursor_def
  loadStoredCursor_def setThreadLoading_def moveThreadLoading_def reportResponseError_def
  handleEventData_def event_messages_def event_message_def rewind_mark_def is_number_def
  release_run_def conflict_detail_def busyLabel_def busy_message_def note_active_run_def
  sendMessage_start_def sendMessage_finish_def sendMessage_def startRewindEdit_def
  confirmRewindEdit_start_def confirmRewindEdit_finish_def confirmRewindEdit_settle_def
  confirmRewindEdit_def isUser_def canRewind_def isEditingRewind_def showRewindButton_def
  rewind_button_enabled_def confirm_button_enabled_def currentThreadKey_def activeThreadId_def
  isActiveHere_def isAnyRunActive_def isLoading_def canInterrupt_def blockNewMessages_def
  rewindDisabled_def currentRewindStatus_def truthy_str_def trim_def is_space_def Let_def


section \<open>Plan deltas\<close>

lemma foldl_meta_set_Some:
  "foldl (meta_set dp) acc xs k = Some v \<Longrightarrow>
     acc k = Some v \<or>
     (\<exists>ms\<in>set xs. \<not> nullish (meta_id ms) \<and> js_String (meta_id ms) = k
        \<and> parsePlanMetaTimestamp dp (last_updated ms) = Some v)"
proof (induction xs arbitrary: acc)
  case Nil
  then show ?case by simp
next
  case (Cons x xs)
  from Cons.prems have "foldl (meta_set dp) (meta_set dp acc x) xs k = Some v" by simp
  from Cons.IH [OF this] show ?case
    by (auto simp: meta_set_def Let_def split: if_splits option.splits)
qed

lemma buildPlanMetaMap_Some:
  "buildPlanMetaMap dp md k = Some v \<Longrightarrow>
     \<exists>ms\<in>set (steps_of md). \<not> nullish (meta_id ms) \<and> js_String (meta_id ms) = k
        \<and> parsePlanMetaTimestamp dp (last_updated ms) = Some v"
  unfolding buildPlanMetaMap_def using foldl_meta_set_Some [of dp Map.empty] by fastforce

lemma step_updated_iff:
  "step_updated cm cs pm ps st \<longleftrightarrow>
     \<not> nullish (step_id st) \<and>
     (first_timestamp pm cm (step_key st) \<or>
      (timestamp_increased pm cm (step_key st)
       \<and> \<not> status_transition ''blocked'' ''pending'' ps cs (step_key st)))"
  by (auto simp: step_updated_def Let_def first_timestamp_def timestamp_increased_def
      status_transition_def status_of_def step_key_def split: option.splits)

lemma updatedSteps_None: "updatedSteps (getUpdatedPlanSteps dp pl md None ps) = []"
  by (simp add: getUpdatedPlanSteps_def Let_def)

lemma updatedSteps_Some:
  "updatedSteps (getUpdatedPlanSteps dp pl md (Some pm) ps) =
     filter (step_updated (buildPlanMetaMap dp md) (buildPlanStatusMap pl) pm ps) (steps_of pl)"
  by (simp add: getUpdatedPlanSteps_def Let_def)

lemma metaMap_getUpdatedPlanSteps:
  "metaMap (getUpdatedPlanSteps dp pl md pm ps) = buildPlanMetaMap dp md"
  by (simp add: getUpdatedPlanSteps_def Let_def split: option.splits)

lemma statusMap_getUpdatedPlanSteps:
  "statusMap (getUpdatedPlanSteps dp pl md pm ps) = buildPlanStatusMap pl"
  by (simp add: getUpdatedPlanSteps_def Let_def split: option.splits)

text \<open>
  In \<open>decoratedMessages\<close> the previous snapshot of a plan-bearing message is the last plan-bearing
  message before it: a message with both arrays gets the delta against the maps carried so far,
  and hands its own maps on; any other message is passed over.
\<close>

lemma decorate_plan_bearing:
  assumes "add_content m = Some a" and "plan a = Some sts" and "plan_meta_data a = Some mds"
  shows "decorate dp lm ls (m # ms) =
           m\<lparr>add_content := Some (a\<lparr>plan_update_steps :=
                 Some (updatedSteps (getUpdatedPlanSteps dp (Some sts) (Some mds) lm ls))\<rparr>)\<rparr>
           # decorate dp (Some (buildPlanMetaMap dp (Some mds))) (Some (buildPlanStatusMap (Some sts))) ms"
  using assms by (simp add: Let_def metaMap_getUpdatedPlanSteps statusMap_getUpdatedPlanSteps)

lemma decorate_not_plan_bearing:
  assumes "add_content m = None \<or> (\<exists>a. add_content m = Some a \<and> (plan a = None \<or> plan_meta_data a = None))"
  shows "decorate dp lm ls (m # ms) = m # decorate dp lm ls ms"
  using assms by (auto simp: Let_def no_addcontent_def)

text \<open>
  Claim C2, as stated: between two plan-bearing snapshots the delta is exactly the steps whose
  \<open>last_updated\<close> increased, those that went from \<open>blocked\<close> to \<open>pending\<close> left out. It fails on a
  step that had no timestamp in the previous snapshot: the step below went from \<open>blocked\<close> to
  \<open>pending\<close>, its timestamp did not increase (there was none), and it is in the delta; the same
  on two consecutive plan-bearing messages, the first of which lists the step without a timestamp.
\<close>

theorem plan_delta_reports_first_timestamp:
  "updatedSteps (getUpdatedPlanSteps sample_date_parse (Some [ex_step ''a'' ''pending''])
       (Some [ex_meta ''a'' ''2024-01-02T00:00:00Z'']) (Some Map.empty) (Some [''a'' \<mapsto> ''blocked'']))
     = [ex_step ''a'' ''pending''] \<and>
   claimed_delta sample_date_parse (Some [ex_step ''a'' ''pending''])
       (Some [ex_meta ''a'' ''2024-01-02T00:00:00Z'']) Map.empty (Some [''a'' \<mapsto> ''blocked'']) = [] \<and>
   status_transition ''blocked'' ''pending'' (Some [''a'' \<mapsto> ''blocked''])
     (buildPlanStatusMap (Some [ex_step ''a'' ''pending''])) ''a'' \<and>
   map update_steps_of
     (decoratedMessages sample_date_parse
        [plan_message [ex_step ''a'' ''blocked''] [],
         plan_message [ex_step ''a'' ''pending''] [ex_meta ''a'' ''2024-01-02T00:00:00Z'']])
     = [Some [], Some [ex_step ''a'' ''pending'']]"
  by (simp add: decoratedMessages_def plan_message_def update_steps_of_def plan_eval)

text \<open>
  Claim C2, amended: with a previous snapshot present, the delta is exactly the steps of the plan,
  in order, that have a non-null id and either have a timestamp now and had none in the previous
  snapshot, or whose timestamp increased and whose status did not go from \<open>blocked\<close> to
  \<open>pending\<close>.
\<close>

theorem plan_delta_characterisation:
  "updatedSteps (getUpdatedPlanSteps dp pl md (Some pm) ps) =
     filter (\<lambda>st. \<not> nullish (step_id st) \<and>
               (first_timestamp pm (buildPlanMetaMap dp md) (step_key st) \<or>
                (timestamp_increased pm (buildPlanMetaMap dp md) (step_key st) \<and>
                 \<not> status_transition ''blocked'' ''pending'' ps (buildPlanStatusMap pl) (step_key st))))
       (steps_of pl)"
  unfolding updatedSteps_Some by (rule filter_cong) (simp_all add: step_updated_iff)

text \<open>
  Witness for C2: of four steps, \<open>a\<close> (timestamp increased, \<open>in_progress\<close> to \<open>done\<close>) and \<open>d\<close> (first
  timestamp) are reported; \<open>b\<close> (timestamp increased, \<open>blocked\<close> to \<open>pending\<close>) and \<open>c\<close> (timestamp
  unchanged) are not.
\<close>

theorem plan_delta_characterisation_witness:
  "updatedSteps (getUpdatedPlanSteps sample_date_parse
       (Some [ex_step ''a'' ''done'', ex_step ''b'' ''pending'', ex_step ''c'' ''in_progress'',
              ex_step ''d'' ''pending''])
       (Some [ex_meta ''a'' ''2024-01-02T00:00:00Z'', ex_meta ''b'' ''2024-01-02T00:00:00Z'',
              ex_meta ''c'' ''2024-01-01T00:00:00Z'', ex_meta ''d'' ''2024-01-02T00:00:00Z''])
       (Some [''a'' \<mapsto> 1704067200000, ''b'' \<mapsto> 1704067200000, ''c'' \<mapsto> 1704067200000])
       (Some [''a'' \<mapsto> ''in_progress'', ''b'' \<mapsto> ''blocked'', ''c'' \<mapsto> ''pending'']))
     = [ex_step ''a'' ''done'', ex_step ''d'' ''pending'']"
  using plan_delta_characterisation [of sample_date_parse
       "Some [ex_step ''a'' ''done'', ex_step ''b'' ''pending'', ex_step ''c'' ''in_progress'',
              ex_step ''d'' ''pending'']"
       "Some [ex_meta ''a'' ''2024-01-02T00:00:00Z'', ex_meta ''b'' ''2024-01-02T00:00:00Z'',
              ex_meta ''c'' ''2024-01-01T00:00:00Z'', ex_meta ''d'' ''2024-01-02T00:00:00Z'']"
       "[''a'' \<mapsto> 1704067200000, ''b'' \<mapsto> 1704067200000, ''c'' \<mapsto> 1704067200000]"
       "Some [''a'' \<mapsto> ''in_progress'', ''b'' \<mapsto> ''blocked'', ''c'' \<mapsto> ''pending'']"]
  by (simp add: plan_eval)

text \<open>
  Claim C3, as stated: a step going from \<open>pending\<close> to \<open>in_progress\<close> always appears in the delta.
  It fails when the step's timestamp did not change.
\<close>

theorem plan_delta_omits_untimed_progress:
  "status_transition ''pending'' ''in_progress'' (Some [''a'' \<mapsto> ''pending''])
     (buildPlanStatusMap (Some [ex_step ''a'' ''in_progress''])) ''a'' \<and>
   ex_step ''a'' ''in_progress'' \<notin> set (updatedSteps (getUpdatedPlanSteps sample_date_parse
       (Some [ex_step ''a'' ''in_progress''])
       (Some [ex_meta ''a'' ''2024-01-01T00:00:00Z'']) (Some [''a'' \<mapsto> 1704067200000])
       (Some [''a'' \<mapsto> ''pending''])))"
  by (simp add: plan_eval)

text \<open>
  Claim C3, amended: a step that went from \<open>blocked\<close> to \<open>pending\<close> and had a timestamp in the
  previous snapshot never appears in the delta; a step of the plan (with a non-null id) that went
  from \<open>pending\<close> to \<open>in_progress\<close> appears exactly when its timestamp increased or it has a
  timestamp now and had none before.
\<close>

theorem plan_delta_transitions:
  "(\<forall>st \<in> set (updatedSteps (getUpdatedPlanSteps dp pl md (Some pm) ps)).
      pm (step_key st) \<noteq> None \<longrightarrow>
      \<not> status_transition ''blocked'' ''pending'' ps (buildPlanStatusMap pl) (step_key st)) \<and>
   (\<forall>st \<in> set (steps_of pl).
      \<not> nullish (step_id st) \<and>
      status_transition ''pending'' ''in_progress'' ps (buildPlanStatusMap pl) (step_key st) \<longrightarrow>
      (st \<in> set (updatedSteps (getUpdatedPlanSteps dp pl md (Some pm) ps)) \<longleftrightarrow>
         first_timestamp pm (buildPlanMetaMap dp md) (step_key st) \<or>
         timestamp_increased pm (buildPlanMetaMap dp md) (step_key st)))"
  unfolding updatedSteps_Some
  by (auto simp: step_updated_iff first_timestamp_def status_transition_def)

text \<open>
  Witness for C3: \<open>a\<close> went from \<open>pending\<close> to \<open>in_progress\<close> with a later timestamp and is
  reported; \<open>b\<close> went from \<open>blocked\<close> to \<open>pending\<close> with a later timestamp and is not.
\<close>

theorem plan_delta_transitions_witness:
  "updatedSteps (getUpdatedPlanSteps sample_date_parse
       (Some [ex_step ''a'' ''in_progress'', ex_step ''b'' ''pending''])
       (Some [ex_meta ''a'' ''2024-01-02T00:00:00Z'', ex_meta ''b'' ''2024-01-02T00:00:00Z''])
       (Some [''a'' \<mapsto> 1704067200000, ''b'' \<mapsto> 1704067200000])
       (Some [''a'' \<mapsto> ''pending'', ''b'' \<mapsto> ''blocked'']))
     = [ex_step ''a'' ''in_progress'']
   \<and> status_transition ''pending'' ''in_progress'' (Some [''a'' \<mapsto> ''pending'', ''b'' \<mapsto> ''blocked''])
        (buildPlanStatusMap (Some [ex_step ''a'' ''in_progress'', ex_step ''b'' ''pending''])) ''a''
   \<and> status_transition ''blocked'' ''pending'' (Some [''a'' \<mapsto> ''pending'', ''b'' \<mapsto> ''blocked''])
        (buildPlanStatusMap (Some [ex_step ''a'' ''in_progress'', ex_step ''b'' ''pending''])) ''b''
   \<and> timestamp_increased [''a'' \<mapsto> 1704067200000, ''b'' \<mapsto> 1704067200000]
        (buildPlanMetaMap sample_date_parse
           (Some [ex_meta ''a'' ''2024-01-02T00:00:00Z'', ex_meta ''b'' ''2024-01-02T00:00:00Z''])) ''a''"
  using plan_delta_transitions [of sample_date_parse
       "Some [ex_step ''a'' ''in_progress'', ex_step ''b'' ''pending'']"
       "Some [ex_meta ''a'' ''2024-01-02T00:00:00Z'', ex_meta ''b'' ''2024-01-02T00:00:00Z'']"
       "[''a'' \<mapsto> 1704067200000, ''b'' \<mapsto> 1704067200000]"
       "Some [''a'' \<mapsto> ''pending'', ''b'' \<mapsto> ''blocked'']"]
  by (simp add: plan_eval)

text \<open>
  Claim C10: without a previous snapshot (\<open>previousMetaMap\<close> is null) \<open>updatedSteps\<close> is empty; and
  on every input, a step of \<open>updatedSteps\<close> has a non-null id, and the plan meta data holds a step
  with a non-null id of the same key whose \<open>last_updated\<close> parses.
\<close>

theorem updatedSteps_needs_id_and_timestamp:
  "updatedSteps (getUpdatedPlanSteps dp pl md None ps) = [] \<and>
   (\<forall>st \<in> set (updatedSteps (getUpdatedPlanSteps dp pl md pm ps)).
      \<not> nullish (step_id st) \<and>
      (\<exists>ms \<in> set (steps_of md). \<not> nullish (meta_id ms)
          \<and> js_String (meta_id ms) = js_String (step_id st)
          \<and> parsePlanMetaTimestamp dp (last_updated ms) \<noteq> None))"
proof (intro conjI ballI)
  show "updatedSteps (getUpdatedPlanSteps dp pl md None ps) = []" by (rule updatedSteps_None)
next
  fix st assume st: "st \<in> set (updatedSteps (getUpdatedPlanSteps dp pl md pm ps))"
  then obtain prev where pm: "pm = Some prev"
    by (cases pm) (simp_all add: updatedSteps_None)
  from st have upd: "step_updated (buildPlanMetaMap dp md) (buildPlanStatusMap pl) prev ps st"
    by (simp add: pm updatedSteps_Some)
  then show "\<not> nullish (step_id st)" by (simp add: step_updated_def Let_def split: if_splits)
  from upd obtain v where "buildPlanMetaMap dp md (js_String (step_id st)) = Some v"
    by (auto simp: step_updated_def Let_def split: if_splits option.splits)
  from buildPlanMetaMap_Some [OF this]
  show "\<exists>ms \<in> set (steps_of md). \<not> nullish (meta_id ms)
          \<and> js_String (meta_id ms) = js_String (step_id st)
          \<and> parsePlanMetaTimestamp dp (last_updated ms) \<noteq> None"
    by auto
qed

text \<open>
  Witness for C10: with a previous snapshot, the step \<open>a\<close> is reported, it has an id and its meta
  entry parses; the step without id and the step whose \<open>last_updated\<close> is not a date are not
  reported; without a previous snapshot nothing is.
\<close>

theorem updatedSteps_needs_id_and_timestamp_witness:
  "updatedSteps (getUpdatedPlanSteps sample_date_parse
       (Some [ex_step ''a'' ''done'', \<lparr>step_id = JNull, status = JStr ''done'', title = ''Untracked''\<rparr>,
              ex_step ''c'' ''done''])
       (Some [ex_meta ''a'' ''2024-01-02T00:00:00Z'', ex_meta ''c'' ''soon''])
       (Some Map.empty) None)
     = [ex_step ''a'' ''done'']
   \<and> \<not> nullish (step_id (ex_step ''a'' ''done''))
   \<and> parsePlanMetaTimestamp sample_date_parse (last_updated (ex_meta ''a'' ''2024-01-02T00:00:00Z'')) \<noteq> None
   \<and> updatedSteps (getUpdatedPlanSteps sample_date_parse
       (Some [ex_step ''a'' ''done'']) (Some [ex_meta ''a'' ''2024-01-02T00:00:00Z'']) None None) = []"
  using updatedSteps_needs_id_and_timestamp [of sample_date_parse
       "Some [ex_step ''a'' ''done'', \<lparr>step_id = JNull, status = JStr ''done'', title = ''Untracked''\<rparr>,
              ex_step ''c'' ''done'']"
       "Some [ex_meta ''a'' ''2024-01-02T00:00:00Z'', ex_meta ''c'' ''soon'']" None "Some Map.empty"]
  by (simp add: plan_eval)


section \<open>History snapshots and the event stream\<close>




text \<open>
  Claim C4, as stated: after a \<open>history_reset\<close> event the message list equals exactly the list the
  event carries. It fails on a carried message that has no name: the client stores it under the
  name \<open>assistant\<close>.
\<close>

theorem history_reset_names_unnamed_message:
  "messages (fst (handleEventData
       (Some (HistoryReset (Some [\<lparr>name = JUndefined, content = JStr ''resumed'', add_content = None,
                                   message_index = JNum 0, can_rewind_before = JBool False\<rparr>])))
       ''t1'' ex_thread))
     = [\<lparr>name = JStr ''assistant'', content = JStr ''resumed'', add_content = None,
          message_index = JNum 0, can_rewind_before = JBool False\<rparr>]
   \<and> messages (fst (handleEventData
       (Some (HistoryReset (Some [\<lparr>name = JUndefined, content = JStr ''resumed'', add_content = None,
                                   message_index = JNum 0, can_rewind_before = JBool False\<rparr>])))
       ''t1'' ex_thread))
     \<noteq> [\<lparr>name = JUndefined, content = JStr ''resumed'', add_content = None,
          message_index = JNum 0, can_rewind_before = JBool False\<rparr>]"
  by (simp add: app_eval)

lemma event_message_named: "truthy (name m) \<Longrightarrow> event_message m = m"
  by (simp add: event_message_def)

lemma event_messages_named:
  "(\<forall>m \<in> set xs. truthy (name m)) \<longrightarrow> map event_message xs = xs"
  by (induction xs) (simp_all add: event_message_named)

text \<open>
  Claim C4, amended: after a \<open>history_reset\<close> event (for a thread id that is not empty) the message
  list is the event's list with each message rebuilt from its name, content, \<open>add_content\<close>,
  \<open>message_index\<close> and \<open>can_rewind_before\<close>, a missing or empty name replaced by \<open>assistant\<close>:
  a full replacement that does not depend on the previous list, and the carried list itself when
  every carried message has a name. After a \<open>message_update\<close> event the previous list
  is kept as a prefix and the event's messages, rebuilt in the same way, follow it.
\<close>

theorem history_reset_replaces_and_update_appends:
  assumes "threadId \<noteq> []"
  shows "messages (fst (handleEventData (Some (HistoryReset msgs)) threadId s)) = event_messages msgs
       \<and> ((\<forall>m \<in> set (case msgs of Some xs \<Rightarrow> xs | None \<Rightarrow> []). truthy (name m)) \<longrightarrow>
            messages (fst (handleEventData (Some (HistoryReset msgs)) threadId s))
              = (case msgs of Some xs \<Rightarrow> xs | None \<Rightarrow> []))
       \<and> messages (fst (handleEventData (Some (MessageUpdate msgs)) threadId s))
            = messages s @ event_messages msgs"
  using assms event_messages_named
  by (auto simp: handleEventData_def event_messages_def split: option.splits)

text \<open>
  Witness for C4: a reset carrying two named messages replaces the three of the thread by these
  two; an update carrying them appends them.
\<close>

theorem history_reset_replaces_and_update_appends_witness:
  "messages (fst (handleEventData
       (Some (HistoryReset (Some [ex_message ''user'' ''first'' 0 False, ex_message ''user'' ''retry'' 1 False])))
       ''t1'' ex_thread))
     = [ex_message ''user'' ''first'' 0 False, ex_message ''user'' ''retry'' 1 False]
   \<and> messages (fst (handleEventData
       (Some (MessageUpdate (Some [ex_message ''planner'' ''next'' 3 False]))) ''t1'' ex_thread))
     = messages ex_thread @ [ex_message ''planner'' ''next'' 3 False]"
  using history_reset_replaces_and_update_appends [of "''t1''"
       "Some [ex_message ''user'' ''first'' 0 False, ex_message ''user'' ''retry'' 1 False]" ex_thread]
    history_reset_replaces_and_update_appends [of "''t1''"
       "Some [ex_message ''planner'' ''next'' 3 False]" ex_thread]
  by (simp add: app_eval)


section \<open>Rewind eligibility and the rewind controls\<close>

lemma rewind_update_messages:
  "threadId \<noteq> [] \<Longrightarrow>
   messages (fst (handleEventData (Some (RewindUpdate idx)) threadId s))
     = map (rewind_mark (set (case idx of Some xs \<Rightarrow> xs | None \<Rightarrow> []))) (messages s)"
  by (simp add: handleEventData_def Let_def)

text \<open>
  What a \<open>rewind_update\<close> event carrying the set of rewindable indices does to the list, and
  where the Rewind button is rendered: after the event the list has
  the same messages in the same order, and each differs from its predecessor at most in
  \<open>can_rewind_before\<close>: for an end-user message with a numeric \<open>message_index\<close> it is \<open>true\<close> exactly
  when the index is in the set, for every other message it is the previous value. The Rewind
  button is rendered only on an end-user message whose \<open>can_rewind_before\<close> is truthy (on any
  message list), so after the event, with a numeric index, only on one whose index is in the set.
\<close>

theorem rewind_update_marks_user_messages:
  assumes "threadId \<noteq> []"
  shows "let indices = set (case idx of Some xs \<Rightarrow> xs | None \<Rightarrow> []);
             after = messages (fst (handleEventData (Some (RewindUpdate idx)) threadId s))
         in length after = length (messages s) \<and>
            (\<forall>i < length (messages s).
               let m = messages s ! i; m' = after ! i
               in name m' = name m \<and> message_index m' = message_index m \<and>
                  content m' = content m \<and> add_content m' = add_content m \<and>
                  (if isUser m \<and> is_number (message_index m)
                   then can_rewind_before m' = JBool (message_index m \<in> indices)
                   else can_rewind_before m' = can_rewind_before m)) \<and>
            (\<forall>m hasContent editIndex.
               showRewindButton hasContent editIndex m \<longrightarrow> isUser m \<and> truthy (can_rewind_before m)) \<and>
            (\<forall>m' \<in> set after. \<forall>hasContent editIndex.
               showRewindButton hasContent editIndex m' \<and> is_number (message_index m')
                 \<longrightarrow> message_index m' \<in> indices)"
proof -
  define indices where "indices = set (case idx of Some xs \<Rightarrow> xs | None \<Rightarrow> [])"
  define after where "after = messages (fst (handleEventData (Some (RewindUpdate idx)) threadId s))"
  have after: "after = map (rewind_mark indices) (messages s)"
    unfolding after_def indices_def using assms by (rule rewind_update_messages)
  have len: "length after = length (messages s)" by (simp add: after)
  have pointwise: "\<forall>i < length (messages s).
               let m = messages s ! i; m' = after ! i
               in name m' = name m \<and> message_index m' = message_index m \<and>
                  content m' = content m \<and> add_content m' = add_content m \<and>
                  (if isUser m \<and> is_number (message_index m)
                   then can_rewind_before m' = JBool (message_index m \<in> indices)
                   else can_rewind_before m' = can_rewind_before m)"
    by (simp add: after rewind_mark_def isUser_def Let_def)
  have offered: "\<forall>m hasContent editIndex.
               showRewindButton hasContent editIndex m \<longrightarrow> isUser m \<and> truthy (can_rewind_before m)"
    by (simp add: showRewindButton_def canRewind_def)
  have offered_after: "\<forall>m' \<in> set after. \<forall>hasContent editIndex.
               showRewindButton hasContent editIndex m' \<and> is_number (message_index m')
                 \<longrightarrow> message_index m' \<in> indices"
    by (auto simp: after rewind_mark_def showRewindButton_def canRewind_def isUser_def
        split: if_splits)
  from len pointwise offered offered_after show ?thesis
    unfolding indices_def [symmetric] after_def [symmetric] Let_def by blast
qed

text \<open>
  An instance: the set is \<open>{2}\<close>; the user message 0 loses the flag, the user message 2 gains
  it, the planner's message keeps its own; the Rewind button is rendered on message 2 only.
\<close>

theorem rewind_update_marks_user_messages_witness:
  "messages (fst (handleEventData (Some (RewindUpdate (Some [JNum 2]))) ''t1'' ex_thread))
     = [ex_message ''user'' ''first'' 0 False, ex_message ''planner'' ''plan'' 1 False,
        ex_message ''user'' ''second'' 2 True]
   \<and> showRewindButton (\<lambda>c. True) None (ex_message ''user'' ''second'' 2 True)
   \<and> \<not> showRewindButton (\<lambda>c. True) None (ex_message ''user'' ''first'' 0 False)"
  using rewind_update_marks_user_messages [of "''t1''" "Some [JNum 2]" ex_thread]
  by (simp add: app_eval)

text \<open>
  Claim C5 says that after a \<open>rewind_update\<close> event an end-user message with a numeric index has
  \<open>can_rewind_before = true\<close> exactly when its index is in the set, and that the rewind action is
  only ever offered on end-user messages whose \<open>can_rewind_before\<close> is true. Evaluated on the idle
  thread \<open>t1\<close> with the edit form of message 0 open, after a \<open>rewind_update\<close> whose set is \<open>{2}\<close>:
  message 0 has \<open>can_rewind_before = false\<close> and its Rewind button is not rendered, but its edit
  form is still rendered (by \<open>rewindEditIndex\<close>, which the event leaves alone), its confirm button
  is enabled, and \<open>confirmRewindEdit\<close> posts the rewind of message 0.
\<close>

theorem rewind_confirm_offered_after_revocation:
  "rewindEditIndex ex_editing = Some 0
   \<and> messages ex_revoked
       = [ex_message ''user'' ''first'' 0 False, ex_message ''planner'' ''plan'' 1 False,
          ex_message ''user'' ''second'' 2 True]
   \<and> can_rewind_before (messages ex_revoked ! 0) = JBool False
   \<and> \<not> canRewind (messages ex_revoked ! 0)
   \<and> \<not> showRewindButton (\<lambda>c. True) (rewindEditIndex ex_revoked) (messages ex_revoked ! 0)
   \<and> rewindEditIndex ex_revoked = Some 0
   \<and> isEditingRewind (rewindEditIndex ex_revoked) (messages ex_revoked ! 0)
   \<and> \<not> rewindDisabled ex_revoked
   \<and> confirm_button_enabled ex_revoked (messages ex_revoked ! 0)
   \<and> snd (confirmRewindEdit_start (Some (messages ex_revoked ! 0)) ex_revoked)
       = [PostRewind ''t1'' 0 ''first, edited'']"
  by (simp add: app_eval)

text \<open>
  Claim C6 says that while the rewind status of a thread is \<open>pending\<close> the client allows neither
  starting nor confirming a rewind on it. Evaluated on the idle thread \<open>t1\<close> after
  \<open>rewind_status = pending\<close> has arrived: the status the client derives is \<open>pending\<close>, the Rewind
  button of the first message is rendered and enabled, and once pressed the confirm button is
  enabled and \<open>confirmRewindEdit\<close> posts the rewind.
\<close>

theorem rewind_allowed_while_status_pending:
  "currentRewindStatus ex_pending = Some ''pending''
   \<and> \<not> rewindDisabled ex_pending
   \<and> rewind_button_enabled (\<lambda>c. True) ex_pending (ex_message ''user'' ''first'' 0 True)
   \<and> currentRewindStatus ex_pending_editing = Some ''pending''
   \<and> confirm_button_enabled ex_pending_editing (ex_message ''user'' ''first'' 0 True)
   \<and> snd (confirmRewindEdit_start (Some (ex_message ''user'' ''first'' 0 True)) ex_pending_editing)
       = [PostRewind ''t1'' 0 ''first, edited'']"
  by (simp add: app_eval)


section \<open>Terminal events\<close>

text \<open>
  Claim C7 says that on any of the events \<open>done\<close>, \<open>interrupted\<close> and \<open>error\<close> for a thread the
  active-run state is cleared when it names the thread, and the thread's loading state is cleared.
  Evaluated on thread \<open>t1\<close> while its run is active: after the \<open>error\<close> event the error is shown
  and the loading entry is gone, but the active run still names \<open>t1\<close> and the thread still counts
  as loading; after \<open>interrupted\<close> or \<open>done\<close> in the same state the active run is cleared and the
  thread no longer counts as loading.
\<close>

theorem error_event_keeps_active_run:
  "error (fst (handleEventData (Some (ErrorEvent (Some ''executor failed''))) ''t1'' ex_running))
     = ''executor failed''
   \<and> ''t1'' \<notin> loadingByThreadId
        (fst (handleEventData (Some (ErrorEvent (Some ''executor failed''))) ''t1'' ex_running))
   \<and> activeRun (fst (handleEventData (Some (ErrorEvent (Some ''executor failed''))) ''t1'' ex_running))
     = \<lparr>run_threadId = Some ''t1'', run_name = Some ''Drell-Yan''\<rparr>
   \<and> isLoading (fst (handleEventData (Some (ErrorEvent (Some ''executor failed''))) ''t1'' ex_running))
   \<and> activeRun (fst (handleEventData (Some Interrupted) ''t1'' ex_running))
     = \<lparr>run_threadId = None, run_name = None\<rparr>
   \<and> \<not> isLoading (fst (handleEventData (Some Interrupted) ''t1'' ex_running))
   \<and> activeRun (fst (handleEventData (Some Done) ''t1'' ex_running))
     = \<lparr>run_threadId = None, run_name = None\<rparr>
   \<and> \<not> isLoading (fst (handleEventData (Some Done) ''t1'' ex_running))"
  by (simp add: app_eval)

text \<open>
  The three branches in general: on a \<open>done\<close> or \<open>interrupted\<close> event for a thread (its id not
  empty) the thread's loading entry is cleared and the active-run state is cleared when it names
  that thread, and left as it is otherwise; on an \<open>error\<close> event the thread's loading entry is
  cleared, the error text is set, and the active-run state is left as it is.
\<close>

theorem terminal_events_release:
  assumes "threadId \<noteq> []"
  shows "(\<forall>ev \<in> {Done, Interrupted}.
            let s' = fst (handleEventData (Some ev) threadId s)
            in threadId \<notin> loadingByThreadId s' \<and>
               activeRun s' = (if run_threadId (activeRun s) = Some threadId
                               then \<lparr>run_threadId = None, run_name = None\<rparr> else activeRun s))
       \<and> (let s' = fst (handleEventData (Some (ErrorEvent e)) threadId s)
          in threadId \<notin> loadingByThreadId s' \<and> activeRun s' = activeRun s
             \<and> error s' = (case e of Some t \<Rightarrow> if t \<noteq> [] then t else ''Unknown error from server''
                           | None \<Rightarrow> ''Unknown error from server''))"
  using assms
  by (simp add: handleEventData_def Let_def setThreadLoading_def release_run_def
      reloadHistory_start_def closeEventSource_def split: prod.splits)

text \<open>
  An instance: on \<open>done\<close> and on \<open>interrupted\<close> the running thread \<open>t1\<close> is released and no
  longer loading; on \<open>error\<close> its loading entry is cleared.
\<close>

theorem terminal_events_release_witness:
  "activeRun (fst (handleEventData (Some Done) ''t1'' ex_running)) = \<lparr>run_threadId = None, run_name = None\<rparr>
   \<and> \<not> isLoading (fst (handleEventData (Some Done) ''t1'' ex_running))
   \<and> activeRun (fst (handleEventData (Some Interrupted) ''t1'' ex_running))
        = \<lparr>run_threadId = None, run_name = None\<rparr>
   \<and> \<not> isLoading (fst (handleEventData (Some Interrupted) ''t1'' ex_running))
   \<and> ''t1'' \<notin> loadingByThreadId (fst (handleEventData (Some (ErrorEvent None)) ''t1'' ex_running))"
  using terminal_events_release [of "''t1''" ex_running None]
  by (simp add: app_eval)


section \<open>Admission conflicts\<close>



lemma fst_case_prod_later: "fst (case p of (s2, later) \<Rightarrow> (s2, f later)) = fst p"
  by (cases p) simp

lemma messages_rewind_conflict:
  "messages (fst (confirmRewindEdit_finish t (RewindConflict body) s)) = messages s"
  by (simp add: confirmRewindEdit_finish_def Let_def note_active_run_def confirmRewindEdit_settle_def)

lemma messages_chat_conflict:
  "messages (fst (sendMessage_finish t (ChatConflict body) s)) = messages s"
  by (simp add: sendMessage_finish_def Let_def note_active_run_def setThreadLoading_def)

lemma messages_confirmRewindEdit_start:
  "messages (fst (confirmRewindEdit_start msg s)) = messages s"
  by (simp add: confirmRewindEdit_start_def Let_def split: option.splits jsval.splits)

lemma sendMessage_start_cases:
  "sendMessage_start prompt s = (s1, rq) \<Longrightarrow>
     (rq = [] \<and> s1 = s) \<or> (rq \<noteq> [] \<and> messages s1 = messages s @ [user_message prompt])"
  by (auto simp: sendMessage_start_def Let_def setThreadLoading_def user_message_def split: if_splits)

text \<open>
  Claim C9, as stated: a run request that fails with 409 leaves the client's message list as it
  was before the request. It fails: the user's message, appended when the request is sent, is
  still in the list after the 409.
\<close>

theorem chat_conflict_keeps_appended_message:
  "messages (fst (sendMessage ''run it'' (ChatConflict ex_busy) initial_app)) = [user_message ''run it'']
   \<and> snd (sendMessage ''run it'' (ChatConflict ex_busy) initial_app) = [PostChat ''-1'' ''run it'']
   \<and> messages initial_app = []"
  by (simp add: app_eval)

text \<open>
  Claim C9, amended: a rewind request that fails with 409 leaves the client's message list
  identical, before and after; handling the 409 of a run request changes nothing in the list
  either, so that after a run request that fails with 409 the list is the one from before the
  request followed by the user's message, which \<open>sendMessage\<close> appended when it sent the request
  (and the list from before when its guards sent none).
\<close>

theorem conflict_leaves_messages:
  "messages (fst (confirmRewindEdit msg (RewindConflict body) s)) = messages s
   \<and> messages (fst (confirmRewindEdit_finish threadId (RewindConflict body) s)) = messages s
   \<and> messages (fst (sendMessage_finish threadId (ChatConflict body) s)) = messages s
   \<and> messages (fst (sendMessage prompt (ChatConflict body) s))
       = (if snd (sendMessage_start prompt s) = [] then messages s
          else messages s @ [user_message prompt])"
proof (intro conjI)
  obtain s1 rq where st: "confirmRewindEdit_start msg s = (s1, rq)"
    by (cases "confirmRewindEdit_start msg s")
  have m1: "messages s1 = messages s"
    using messages_confirmRewindEdit_start [of msg s] by (simp add: st)
  show "messages (fst (confirmRewindEdit msg (RewindConflict body) s)) = messages s"
    by (cases rq) (simp_all add: confirmRewindEdit_def st m1 fst_case_prod_later messages_rewind_conflict)
next
  show "messages (fst (confirmRewindEdit_finish threadId (RewindConflict body) s)) = messages s"
    by (rule messages_rewind_conflict)
next
  show "messages (fst (sendMessage_finish threadId (ChatConflict body) s)) = messages s"
    by (rule messages_chat_conflict)
next
  obtain s1 rq where st: "sendMessage_start prompt s = (s1, rq)"
    by (cases "sendMessage_start prompt s")
  from sendMessage_start_cases [OF st]
  show "messages (fst (sendMessage prompt (ChatConflict body) s))
       = (if snd (sendMessage_start prompt s) = [] then messages s
          else messages s @ [user_message prompt])"
    by (cases rq) (auto simp: sendMessage_def st fst_case_prod_later messages_chat_conflict)
qed

text \<open>
  Witness for C9: a rewind of message 0 of thread \<open>t1\<close> is posted and answered 409, and the three
  messages are unchanged; a run request on the same thread is answered 409, and the list is the
  three messages followed by the user's new one.
\<close>

theorem conflict_leaves_messages_witness:
  "messages (fst (confirmRewindEdit (Some (ex_message ''user'' ''first'' 0 True)) (RewindConflict ex_busy)
       (ex_thread\<lparr>rewindEditIndex := Some 0, rewindText := Some ''first, edited''\<rparr>)))
     = messages ex_thread
   \<and> snd (confirmRewindEdit (Some (ex_message ''user'' ''first'' 0 True)) (RewindConflict ex_busy)
       (ex_thread\<lparr>rewindEditIndex := Some 0, rewindText := Some ''first, edited''\<rparr>))
     = [PostRewind ''t1'' 0 ''first, edited'']
   \<and> messages (fst (sendMessage ''run it'' (ChatConflict ex_busy) ex_thread))
     = messages ex_thread @ [user_message ''run it'']"
  using conflict_leaves_messages [of "Some (ex_message ''user'' ''first'' 0 True)" ex_busy
      "ex_thread\<lparr>rewindEditIndex := Some 0, rewindText := Some ''first, edited''\<rparr>" "''t1''" "''run it''"]
    conflict_leaves_messages [of None ex_busy ex_thread "''t1''" "''run it''"]
  by (simp add: app_eval)

end
